theory Spec2Isabelle
  imports Main
begin

section \<open>The \<open>pypots-cli dev\<close> command (\<open>pypots/utils/commands/dev.py\<close>)\<close>

text \<open>
  \<open>DevCommand.run\<close> validates the parsed arguments against the working directory and
  then performs one of four actions by calling \<open>shutil.rmtree\<close> or by handing command
  lines to external tools. The model makes every effect explicit: the working
  directory is a map from entry names to their kind, everything the command does is
  appended to a trace of events, and every exception is a value of type \<open>exn\<close>.
\<close>

subsection \<open>Exceptions\<close>

text \<open>
  The instances of Python's \<open>Exception\<close> that the command meets. Three are built by
  the command itself: \<open>AssertionError msg\<close> by a failed \<open>assert\<close>, \<open>ImportError msg\<close>
  and \<open>RuntimeError e\<close>, the object \<open>RuntimeError(e)\<close> around a caught exception \<open>e\<close>,
  by the \<open>except\<close> clauses of \<open>run\<close>. Any other instance is \<open>Raised mro msg\<close>, where
  \<open>mro\<close> lists the names of its class and of the classes that class derives from, up
  to \<open>Exception\<close>: \<open>ModuleNotFoundError\<close>, which the interpreter raises for a module it
  cannot find, has \<open>[ModuleNotFoundError, ImportError, Exception]\<close>. \<open>Other cls msg\<close> is
  an instance of a class \<open>cls\<close> that derives from \<open>Exception\<close> directly. Signals that
  are not instances of \<open>Exception\<close> (\<open>KeyboardInterrupt\<close>, \<open>SystemExit\<close>) are not
  failures of an action and are outside the model.
\<close>

datatype exn =
    AssertionError string
  | ImportError string
  | RuntimeError exn
  | Raised "string list" string

abbreviation Other :: "string \<Rightarrow> string \<Rightarrow> exn" where
  "Other cls msg \<equiv> Raised [cls, ''Exception''] msg"

text \<open>
  \<open>isinstance(e, ImportError)\<close>, which decides whether \<open>except ImportError\<close> catches
  \<open>e\<close>: the class of \<open>e\<close> is \<open>ImportError\<close> or derives from it.
\<close>

fun is_ImportError :: "exn \<Rightarrow> bool" where
  "is_ImportError (ImportError m) = True"
| "is_ImportError (Raised mro m) = (''ImportError'' \<in> set mro)"
| "is_ImportError (AssertionError m) = False"
| "is_ImportError (RuntimeError e) = False"

subsection \<open>The world the command acts on\<close>

datatype kind = Dir | File

text \<open>
  An event of the trace: a message given to \<open>logger.info\<close>, a call of
  \<open>shutil.rmtree\<close> on a path, or a command line handed to \<open>execute_command\<close> together
  with what the call raised (\<open>None\<close> when it returned).
\<close>

datatype event =
    LogInfo string
  | Rmtree string
  | Exec string "exn option"

text \<open>
  The world: the path of the working directory, its entries, for each path whether
  the process is able to delete the tree there (it may lack the rights, or a file in
  the tree may be in use), and the trace.
\<close>

record world =
  cwd :: string
  entries :: "string \<rightharpoonup> kind"
  removable :: "string \<Rightarrow> bool"
  trace :: "event list"

type_synonym action = "world \<Rightarrow> (exn + unit) \<times> world"

text \<open>
  An external tool: given the command line and the entries of the working directory
  it either returns or raises, and leaves the directory in a new state.
\<close>

type_synonym tool = "string \<Rightarrow> (string \<rightharpoonup> kind) \<Rightarrow> exn option \<times> (string \<rightharpoonup> kind)"

text \<open>Sequential composition of statements: an exception skips what follows.\<close>

definition skip :: action where
  "skip w = (Inr (), w)"

definition seq :: "action \<Rightarrow> action \<Rightarrow> action" where
  "seq m n w = (case m w of (Inl e, w') \<Rightarrow> (Inl e, w') | (Inr u, w') \<Rightarrow> n w')"

text \<open>\<open>name in os.listdir(".")\<close>\<close>

definition in_listdir :: "string \<Rightarrow> world \<Rightarrow> bool" where
  "in_listdir name w = (entries w name \<noteq> None)"

text \<open>
  \<open>shutil.rmtree(path, ignore_errors)\<close> of the Python library, on a path relative to
  the working directory. A directory that the process is able to delete is removed
  with all it holds. When the removal fails, when the path is a file and when it is
  missing, the library raises an \<open>OSError\<close>, unless \<open>ignore_errors\<close> is set: then it
  returns as if nothing had happened, and the entry stays as it is.
\<close>

definition rmtree :: "string \<Rightarrow> bool \<Rightarrow> action" where
  "rmtree path ignore_errors w =
     (let w' = w\<lparr>trace := trace w @ [Rmtree path]\<rparr> in
      case entries w path of
        Some Dir \<Rightarrow>
          if removable w path then (Inr (), w'\<lparr>entries := (entries w)(path := None)\<rparr>)
          else (if ignore_errors then Inr ()
                else Inl (Raised [''PermissionError'', ''OSError'', ''Exception''] path), w')
      | Some File \<Rightarrow>
          (if ignore_errors then Inr ()
           else Inl (Raised [''NotADirectoryError'', ''OSError'', ''Exception''] path), w')
      | None \<Rightarrow>
          (if ignore_errors then Inr ()
           else Inl (Raised [''FileNotFoundError'', ''OSError'', ''Exception''] path), w'))"

definition logger_info :: "string \<Rightarrow> action" where
  "logger_info msg w = (Inr (), w\<lparr>trace := trace w @ [LogInfo msg]\<rparr>)"

text \<open>
  Modelled from the spec: \<open>BaseCommand.execute_command\<close> is inherited from
  \<open>pypots.utils.commands\<close>, which is not among the source files. The spec gives its
  contract: "pass a command-line invocation string, block for completion, and
  propagate non-zero exit / invocation failure as an error". The tool that runs the
  command line is a parameter; the call is recorded with its outcome.
\<close>

definition execute_command :: "tool \<Rightarrow> string \<Rightarrow> action" where
  "execute_command t command w =
     (case t command (entries w) of
        (raised, es) \<Rightarrow>
          ((case raised of None \<Rightarrow> Inr () | Some e \<Rightarrow> Inl e),
           w\<lparr>entries := es, trace := trace w @ [Exec command raised]\<rparr>))"

subsection \<open>The command object\<close>

text \<open>
  The six attributes set by \<open>__init__\<close>; \<open>k\<close> is \<open>None\<close> unless \<open>-k\<close> was given.
\<close>

record DevCommand =
  build :: bool
  cleanup :: bool
  run_tests :: bool
  k :: "string option"
  show_coverage :: bool
  lint_code :: bool

definition IMPORT_ERROR_MESSAGE :: string where
  "IMPORT_ERROR_MESSAGE =
     ''`pypots-cli dev` command is for PyPOTS developers to run tests easily. '' @
     ''Therefore, you need a complete PyPOTS development environment. However, you are missing some dependencies. '' @
     ''Please refer to https://github.com/WenjieDu/PyPOTS/blob/main/environment-dev.yml for dependency details. ''"

text \<open>
  The four assertion messages of \<open>check_arguments\<close>, which the source writes in
  place; the first is an f-string over \<open>os.getcwd()\<close>.
\<close>

definition root_directory_message :: "string \<Rightarrow> string" where
  "root_directory_message path =
     ''Command `pypots-cli dev` can only be run under the root directory of project PyPOTS, '' @
     ''but you'' @ [CHR 0x27] @ ''re running it under the path '' @ path @ ''. Please make a check.''"

definition k_message :: string where
  "k_message =
     ''Argument `-k` should combine the use of `--run_tests`. '' @
     ''Try `pypots-cli dev --run_tests -k your_pattern`''"

definition show_coverage_message :: string where
  "show_coverage_message =
     ''Argument `--show_coverage` should combine the use of `--run_tests`. '' @
     ''Try `pypots-cli dev --run_tests --show_coverage`''"

definition cleanup_message :: string where
  "cleanup_message =
     ''Argument `--cleanup` should be used alone. '' @
     ''Try `pypots-cli dev --cleanup`''"

text \<open>
  \<open>check_arguments\<close>: four \<open>assert\<close> statements in sequence; the first that fails
  raises \<open>AssertionError\<close> with its message. Nothing is written.
\<close>

definition check_arguments :: "DevCommand \<Rightarrow> world \<Rightarrow> exn + unit" where
  "check_arguments self w =
     (let containing_docs = in_listdir ''docs'' w;
          containing_pypots = in_listdir ''pypots'' w;
          whether_under_dir_docs = (containing_docs \<and> containing_pypots)
      in
        if \<not> whether_under_dir_docs then
          Inl (AssertionError (root_directory_message (cwd w)))
        else if k self \<noteq> None \<and> \<not> run_tests self then
          Inl (AssertionError k_message)
        else if show_coverage self \<and> \<not> run_tests self then
          Inl (AssertionError show_coverage_message)
        else if cleanup self \<and> \<not> (\<not> run_tests self \<and> \<not> lint_code self) then
          Inl (AssertionError cleanup_message)
        else Inr ())"

text \<open>
  \<open>f"pytest -k {self._k}" if self._k else "pytest"\<close>: the condition is the truth
  value of \<open>self._k\<close>, false for \<open>None\<close> and for the empty string.
\<close>

definition pytest_command :: "DevCommand \<Rightarrow> string" where
  "pytest_command self =
     (case k self of
        None \<Rightarrow> ''pytest''
      | Some pattern \<Rightarrow> if pattern \<noteq> [] then ''pytest -k '' @ pattern else ''pytest'')"

definition command_to_run_test :: "DevCommand \<Rightarrow> string" where
  "command_to_run_test self =
     (if show_coverage self then ''coverage run -m '' @ pytest_command self
      else pytest_command self)"

text \<open>The body of the \<open>try\<close> statement of \<open>run\<close>.\<close>

definition try_body :: "tool \<Rightarrow> DevCommand \<Rightarrow> action" where
  "try_body t self =
     (if cleanup self then
        seq (rmtree ''build'' True)
       (seq (rmtree ''dist'' True)
            (rmtree ''pypots.egg-info'' True))
      else if build self then
        execute_command t ''python setup.py sdist bdist bdist_wheel''
      else if run_tests self then
        seq (logger_info (''Executing '' @ [CHR 0x27] @ command_to_run_test self @ [CHR 0x27] @ ''...''))
       (seq (execute_command t (command_to_run_test self))
       (seq (if show_coverage self then
               seq (execute_command t ''coverage report -m'')
                   (execute_command t ''rm -rf .coverage'')
             else skip)
            (execute_command t ''rm -rf .pytest_cache'')))
      else if lint_code self then
        seq (logger_info ''Reformatting with Black...'')
       (seq (execute_command t ''black .'')
       (seq (logger_info ''Linting with Flake8...'')
            (execute_command t ''flake8 .'')))
      else skip)"

text \<open>
  The two \<open>except\<close> clauses: \<open>except ImportError\<close> comes first and raises a new
  \<open>ImportError\<close> with the fixed message; \<open>except Exception as e\<close> raises
  \<open>RuntimeError(e)\<close>.
\<close>

definition except_clauses :: "exn \<Rightarrow> exn" where
  "except_clauses e =
     (if is_ImportError e then ImportError IMPORT_ERROR_MESSAGE else RuntimeError e)"

text \<open>
  \<open>run\<close>: \<open>check_arguments\<close> is called before the \<open>try\<close> statement, so its
  \<open>AssertionError\<close> leaves \<open>run\<close> as it is. The model is of an interpreter that
  executes \<open>assert\<close> statements (one started without \<open>-O\<close>).
\<close>

definition run :: "tool \<Rightarrow> DevCommand \<Rightarrow> action" where
  "run t self w =
     (case check_arguments self w of
        Inl e \<Rightarrow> (Inl e, w)
      | Inr u \<Rightarrow>
          (case try_body t self w of
             (Inl e, w') \<Rightarrow> (Inl (except_clauses e), w')
           | (Inr u', w') \<Rightarrow> (Inr u', w')))"

subsection \<open>What a call of \<open>run\<close> adds to the trace\<close>

definition new_events :: "world \<Rightarrow> world \<Rightarrow> event list" where
  "new_events w w' = drop (length (trace w)) (trace w')"

text \<open>
  The entries of the working directory once \<open>rmtree\<close> has gone over a path with
  errors ignored; \<open>ok\<close> tells which trees the process is able to delete.
\<close>

definition without_dir ::
  "(string \<Rightarrow> bool) \<Rightarrow> string \<Rightarrow> (string \<rightharpoonup> kind) \<Rightarrow> (string \<rightharpoonup> kind)" where
  "without_dir ok p es = (if es p = Some Dir \<and> ok p then es(p := None) else es)"

subsection \<open>The dispatch as the specification describes it\<close>

text \<open>
  The specification lists four action sequences and a priority among the four flags:
  "cleanup > build > runTests > lintCode (first true flag wins; if none set, no action
  is taken)". The definitions below follow these words: the chosen action is the first
  of the four, in that order, whose flag is set; each action is a list of steps; the
  steps are performed one after the other, and "every failure aborts the entire
  invocation".
\<close>

datatype chosen = Cleanup | Build | RunTests | LintCode

datatype step = Remove string | Invoke string | Announce string

fun flag :: "DevCommand \<Rightarrow> chosen \<Rightarrow> bool" where
  "flag self Cleanup = cleanup self"
| "flag self Build = build self"
| "flag self RunTests = run_tests self"
| "flag self LintCode = lint_code self"

definition spec_chosen_action :: "DevCommand \<Rightarrow> chosen option" where
  "spec_chosen_action self = find (flag self) [Cleanup, Build, RunTests, LintCode]"

fun spec_action_sequence :: "DevCommand \<Rightarrow> chosen option \<Rightarrow> step list" where
  "spec_action_sequence self None = []"
| "spec_action_sequence self (Some Cleanup) =
     [Remove ''build'', Remove ''dist'', Remove ''pypots.egg-info'']"
| "spec_action_sequence self (Some Build) =
     [Invoke ''python setup.py sdist bdist bdist_wheel'']"
| "spec_action_sequence self (Some RunTests) =
     [Announce (''Executing '' @ [CHR 0x27] @ command_to_run_test self @ [CHR 0x27] @ ''...''),
      Invoke (command_to_run_test self)] @
     (if show_coverage self
      then [Invoke ''coverage report -m'', Invoke ''rm -rf .coverage''] else []) @
     [Invoke ''rm -rf .pytest_cache'']"
| "spec_action_sequence self (Some LintCode) =
     [Announce ''Reformatting with Black...'', Invoke ''black .'',
      Announce ''Linting with Flake8...'', Invoke ''flake8 .'']"

fun perform_step :: "tool \<Rightarrow> step \<Rightarrow> action" where
  "perform_step t (Remove p) = rmtree p True"
| "perform_step t (Invoke c) = execute_command t c"
| "perform_step t (Announce m) = logger_info m"

fun perform :: "tool \<Rightarrow> step list \<Rightarrow> action" where
  "perform t [] = skip"
| "perform t (s # ss) = seq (perform_step t s) (perform t ss)"

text \<open>How \<open>run\<close> reports the outcome of the action it performed.\<close>

definition reported :: "(exn + unit) \<times> world \<Rightarrow> (exn + unit) \<times> world" where
  "reported rw =
     (case rw of
        (Inl e, w') \<Rightarrow> (Inl (except_clauses e), w')
      | (Inr u, w') \<Rightarrow> (Inr u, w'))"

subsection \<open>Concrete requests, directories and tools\<close>

text \<open>What the argument parser yields for \<open>pypots-cli dev\<close> with no flag.\<close>

definition dev :: DevCommand where
  "dev = \<lparr>build = False, cleanup = False, run_tests = False, k = None,
          show_coverage = False, lint_code = False\<rparr>"

text \<open>
  The root of a checkout in which the package has been built once; there is no
  \<open>pypots.egg-info\<close>, and the developer may delete everything.
\<close>

definition project_root :: world where
  "project_root =
     \<lparr>cwd = ''/home/dev/PyPOTS'',
      entries = [''docs'' \<mapsto> Dir, ''pypots'' \<mapsto> Dir, ''setup.py'' \<mapsto> File,
                 ''build'' \<mapsto> Dir, ''dist'' \<mapsto> Dir],
      removable = (\<lambda>path. True),
      trace = []\<rparr>"

text \<open>
  The same checkout after a build run by another user: the developer cannot delete
  what is in \<open>build\<close>.
\<close>

definition foreign_build :: world where
  "foreign_build =
     \<lparr>cwd = ''/home/dev/PyPOTS'',
      entries = [''docs'' \<mapsto> Dir, ''pypots'' \<mapsto> Dir, ''setup.py'' \<mapsto> File,
                 ''build'' \<mapsto> Dir, ''dist'' \<mapsto> Dir],
      removable = (\<lambda>path. path \<noteq> ''build''),
      trace = []\<rparr>"

definition docs_directory :: world where
  "docs_directory =
     \<lparr>cwd = ''/home/dev/PyPOTS/docs'',
      entries = [''figs'' \<mapsto> Dir, ''conf.py'' \<mapsto> File],
      removable = (\<lambda>path. True),
      trace = []\<rparr>"

definition tools_succeed :: tool where
  "tools_succeed command es = (None, es)"

text \<open>
  A test run that fails: the call of the test runner raises, with or without
  coverage, after the runner has written its cache directory.
\<close>

definition tests_fail :: tool where
  "tests_fail command es =
     (if command = ''pytest'' \<or> command = ''coverage run -m pytest''
      then (Some (Other ''RuntimeError'' []), es(''.pytest_cache'' \<mapsto> Dir))
      else (None, es))"

text \<open>
  Three failures that \<open>except ImportError\<close> catches: a \<open>ModuleNotFoundError\<close> for the
  formatter, an \<open>ImportError\<close> itself for the style checker, and a
  \<open>zipimport.ZipImportError\<close> for the packaging.
\<close>

definition black_missing :: tool where
  "black_missing command es =
     (if command = ''black .''
      then (Some (Raised [''ModuleNotFoundError'', ''ImportError'', ''Exception'']
                    ''No module named black''), es)
      else (None, es))"

definition flake8_broken :: tool where
  "flake8_broken command es =
     (if command = ''flake8 .''
      then (Some (ImportError ''cannot import name main''), es)
      else (None, es))"

definition setup_from_bad_zip :: tool where
  "setup_from_bad_zip command es =
     (if command = ''python setup.py sdist bdist bdist_wheel''
      then (Some (Raised [''ZipImportError'', ''ImportError'', ''Exception'']
                    ''not a Zip file''), es)
      else (None, es))"

section \<open>Auxiliary facts\<close>

lemmas model_defs =
  check_arguments_def in_listdir_def run_def try_body_def seq_def skip_def rmtree_def
  logger_info_def execute_command_def except_clauses_def pytest_command_def
  command_to_run_test_def reported_def spec_chosen_action_def new_events_def

lemmas input_defs =
  dev_def project_root_def foreign_build_def docs_directory_def tools_succeed_def
  tests_fail_def black_missing_def flake8_broken_def setup_from_bad_zip_def

lemma seq_skip: "seq m skip = m"
  by (auto simp: seq_def skip_def fun_eq_iff split: prod.splits sum.splits)

lemma skip_seq: "seq skip m = m"
  by (auto simp: seq_def skip_def fun_eq_iff)

lemma seq_assoc: "seq (seq a b) c = seq a (seq b c)"
  by (auto simp: seq_def fun_eq_iff split: prod.splits sum.splits)

lemma seq_logger_info:
  "seq (logger_info m) n w = n (w\<lparr>trace := trace w @ [LogInfo m]\<rparr>)"
  by (simp add: seq_def logger_info_def)

lemma seq_execute_command:
  "seq (execute_command t c) n w =
     (case t c (entries w) of
        (None, es) \<Rightarrow> n (w\<lparr>entries := es, trace := trace w @ [Exec c None]\<rparr>)
      | (Some e, es) \<Rightarrow> (Inl e, w\<lparr>entries := es, trace := trace w @ [Exec c (Some e)]\<rparr>))"
  by (simp add: seq_def execute_command_def split: prod.split option.split)

lemmas perform_simps =
  perform.simps perform_step.simps seq_execute_command seq_logger_info skip_def

text \<open>The \<open>if\<close>/\<open>elif\<close> chain of \<open>run\<close> performs the sequence of the chosen action.\<close>

lemma try_body_perform:
  "try_body t self = perform t (spec_action_sequence self (spec_chosen_action self))"
  by (simp add: try_body_def spec_chosen_action_def seq_skip seq_assoc skip_seq)

lemma run_reported:
  "check_arguments self w = Inr () \<Longrightarrow> run t self w = reported (try_body t self w)"
  by (simp add: run_def reported_def)

lemma run_world:
  "check_arguments self w = Inr () \<Longrightarrow> snd (run t self w) = snd (try_body t self w)"
  by (simp add: run_def split: prod.split sum.split)

subsection \<open>Cleanup\<close>

lemma without_dir_apply:
  "without_dir ok p es n = (if n = p \<and> es p = Some Dir \<and> ok p then None else es n)"
  by (simp add: without_dir_def)

lemma rmtree_ignore:
  "rmtree p True w =
     (Inr (), w\<lparr>trace := trace w @ [Rmtree p],
                entries := without_dir (removable w) p (entries w)\<rparr>)"
  by (simp add: rmtree_def without_dir_def Let_def split: option.split kind.split)

lemma try_body_cleanup:
  "cleanup self \<Longrightarrow> try_body t self w =
     (Inr (),
      w\<lparr>trace := trace w @ [Rmtree ''build'', Rmtree ''dist'', Rmtree ''pypots.egg-info''],
        entries := without_dir (removable w) ''pypots.egg-info''
                     (without_dir (removable w) ''dist''
                        (without_dir (removable w) ''build'' (entries w)))\<rparr>)"
  by (simp add: try_body_def seq_def rmtree_ignore)

subsection \<open>Exceptions raised while an action is performed\<close>

lemma perform_step_event:
  "perform_step t s w = (r, w1) \<Longrightarrow>
     \<exists>ev. trace w1 = trace w @ [ev] \<and>
       (case r of
          Inl e \<Rightarrow> \<exists>c. ev = Exec c (Some e)
        | Inr u \<Rightarrow> \<forall>c e. ev \<noteq> Exec c (Some e))"
  by (cases s)
     (auto simp: rmtree_ignore logger_info_def execute_command_def
           split: option.splits prod.splits)

text \<open>
  Only the last step performed can have raised, and it has exactly when the whole
  sequence raises.
\<close>

lemma perform_events:
  "perform t ss w = (r, w') \<Longrightarrow>
     \<exists>evs. trace w' = trace w @ evs \<and>
       (case r of
          Inl e \<Rightarrow> \<exists>c pre. evs = pre @ [Exec c (Some e)] \<and>
                     (\<forall>c' e'. Exec c' (Some e') \<notin> set pre)
        | Inr u \<Rightarrow> \<forall>c' e'. Exec c' (Some e') \<notin> set evs)"
proof (induction ss arbitrary: w)
  case Nil
  then show ?case by (auto simp: skip_def)
next
  case (Cons s ss)
  obtain r1 w1 where s1: "perform_step t s w = (r1, w1)"
    by (cases "perform_step t s w")
  from perform_step_event[OF s1] obtain ev where
    ev: "trace w1 = trace w @ [ev]"
        "case r1 of
           Inl e \<Rightarrow> \<exists>c. ev = Exec c (Some e)
         | Inr u \<Rightarrow> \<forall>c e. ev \<noteq> Exec c (Some e)"
    by blast
  show ?case
  proof (cases r1)
    case (Inl e1)
    with Cons.prems s1 have "r = Inl e1" "w' = w1" by (auto simp: seq_def)
    with ev Inl show ?thesis by auto
  next
    case (Inr u)
    with Cons.prems s1 have rest: "perform t ss w1 = (r, w')" by (auto simp: seq_def)
    from Cons.IH[OF rest] obtain evs where
      evs: "trace w' = trace w1 @ evs"
           "case r of
              Inl e \<Rightarrow> \<exists>c pre. evs = pre @ [Exec c (Some e)] \<and>
                         (\<forall>c' e'. Exec c' (Some e') \<notin> set pre)
            | Inr u \<Rightarrow> \<forall>c' e'. Exec c' (Some e') \<notin> set evs"
      by blast
    have ok: "\<forall>c e. ev \<noteq> Exec c (Some e)" using ev(2) Inr by simp
    have tr: "trace w' = trace w @ (ev # evs)" using ev(1) evs(1) by simp
    show ?thesis
    proof (cases r)
      case (Inl e)
      with evs(2) obtain c pre where
        p: "evs = pre @ [Exec c (Some e)]" "\<forall>c' e'. Exec c' (Some e') \<notin> set pre"
        by auto
      have "ev # evs = (ev # pre) @ [Exec c (Some e)]" using p(1) by simp
      moreover have "\<forall>c' e'. Exec c' (Some e') \<notin> set (ev # pre)" using p(2) ok by auto
      ultimately show ?thesis using tr Inl by (intro exI[of _ "ev # evs"]) auto
    next
      case (Inr u')
      with evs(2) ok tr show ?thesis by (intro exI[of _ "ev # evs"]) auto
    qed
  qed
qed

lemma run_events:
  assumes "check_arguments self w = Inr ()" "run t self w = (r, w')"
  shows "\<exists>evs. trace w' = trace w @ evs \<and>
       (case r of
          Inl err \<Rightarrow> \<exists>c e pre. evs = pre @ [Exec c (Some e)] \<and>
                       (\<forall>c' e'. Exec c' (Some e') \<notin> set pre) \<and> err = except_clauses e
        | Inr u \<Rightarrow> \<forall>c' e'. Exec c' (Some e') \<notin> set evs)"
proof -
  obtain r0 where
    r0: "perform t (spec_action_sequence self (spec_chosen_action self)) w = (r0, w')" and
    r: "r = (case r0 of Inl e \<Rightarrow> Inl (except_clauses e) | Inr u \<Rightarrow> Inr u)"
    using assms
    by (auto simp: run_reported try_body_perform reported_def split: prod.splits sum.splits)
  from perform_events[OF r0] show ?thesis unfolding r by (cases r0) auto
qed

subsection \<open>The events of a test run\<close>

lemma run_tests_events:
  assumes "\<not> cleanup self" "\<not> build self" "run_tests self"
  shows "\<exists>r1 r2 r3 r4. trace (snd (try_body t self w)) = trace w @
      LogInfo (''Executing '' @ [CHR 0x27] @ command_to_run_test self @ [CHR 0x27] @ ''...'') #
      Exec (command_to_run_test self) r1 #
      (if r1 \<noteq> None then []
       else if show_coverage self then
         Exec ''coverage report -m'' r2 #
         (if r2 \<noteq> None then []
          else Exec ''rm -rf .coverage'' r3 #
               (if r3 \<noteq> None then [] else [Exec ''rm -rf .pytest_cache'' r4]))
       else [Exec ''rm -rf .pytest_cache'' r4])"
proof -
  let ?c = "command_to_run_test self"
  have tb: "try_body t self w = perform t (spec_action_sequence self (Some RunTests)) w"
    using assms by (simp add: try_body_perform spec_chosen_action_def)
  obtain r1 es1 where t1: "t ?c (entries w) = (r1, es1)" by (cases "t ?c (entries w)")
  show ?thesis
  proof (cases r1)
    case (Some e)
    show ?thesis
      by (rule exI[of _ r1], rule exI[of _ None], rule exI[of _ None], rule exI[of _ None])
         (simp add: tb perform_simps t1 Some)
  next
    case None
    note n1 = this
    show ?thesis
    proof (cases "show_coverage self")
      case False
      obtain r4 es4 where t4: "t ''rm -rf .pytest_cache'' es1 = (r4, es4)"
        by (cases "t ''rm -rf .pytest_cache'' es1")
      show ?thesis
        by (rule exI[of _ r1], rule exI[of _ None], rule exI[of _ None], rule exI[of _ r4])
           (cases r4; simp add: tb perform_simps t1 n1 t4 False)
    next
      case True
      note cov = this
      obtain r2 es2 where t2: "t ''coverage report -m'' es1 = (r2, es2)"
        by (cases "t ''coverage report -m'' es1")
      show ?thesis
      proof (cases r2)
        case (Some e)
        show ?thesis
          by (rule exI[of _ r1], rule exI[of _ r2], rule exI[of _ None], rule exI[of _ None])
             (simp add: tb perform_simps t1 n1 t2 cov Some)
      next
        case None
        note n2 = this
        obtain r3 es3 where t3: "t ''rm -rf .coverage'' es2 = (r3, es3)"
          by (cases "t ''rm -rf .coverage'' es2")
        show ?thesis
        proof (cases r3)
          case (Some e)
          show ?thesis
            by (rule exI[of _ r1], rule exI[of _ r2], rule exI[of _ r3], rule exI[of _ None])
               (simp add: tb perform_simps t1 n1 t2 n2 t3 cov Some)
        next
          case None
          obtain r4 es4 where t4: "t ''rm -rf .pytest_cache'' es3 = (r4, es4)"
            by (cases "t ''rm -rf .pytest_cache'' es3")
          show ?thesis
            by (rule exI[of _ r1], rule exI[of _ r2], rule exI[of _ r3], rule exI[of _ r4])
               (cases r4; simp add: tb perform_simps t1 n1 t2 n2 t3 None t4 cov)
        qed
      qed
    qed
  qed
qed

lemma run_tests_new_events:
  assumes "check_arguments self w = Inr ()" "\<not> cleanup self" "\<not> build self" "run_tests self"
  shows "\<exists>r1 r2 r3 r4. new_events w (snd (run t self w)) =
      LogInfo (''Executing '' @ [CHR 0x27] @ command_to_run_test self @ [CHR 0x27] @ ''...'') #
      Exec (command_to_run_test self) r1 #
      (if r1 \<noteq> None then []
       else if show_coverage self then
         Exec ''coverage report -m'' r2 #
         (if r2 \<noteq> None then []
          else Exec ''rm -rf .coverage'' r3 #
               (if r3 \<noteq> None then [] else [Exec ''rm -rf .pytest_cache'' r4]))
       else [Exec ''rm -rf .pytest_cache'' r4])"
proof -
  from run_tests_events[OF assms(2-4), of t w] obtain r1 r2 r3 r4 where
    "trace (snd (try_body t self w)) = trace w @
      LogInfo (''Executing '' @ [CHR 0x27] @ command_to_run_test self @ [CHR 0x27] @ ''...'') #
      Exec (command_to_run_test self) r1 #
      (if r1 \<noteq> None then []
       else if show_coverage self then
         Exec ''coverage report -m'' r2 #
         (if r2 \<noteq> None then []
          else Exec ''rm -rf .coverage'' r3 #
               (if r3 \<noteq> None then [] else [Exec ''rm -rf .pytest_cache'' r4]))
       else [Exec ''rm -rf .pytest_cache'' r4])"
    by blast
  then show ?thesis
    unfolding new_events_def run_world[OF assms(1)] by (intro exI) simp
qed

lemma command_to_run_test_neq:
  "command_to_run_test self \<noteq> ''rm -rf .pytest_cache''"
  "command_to_run_test self \<noteq> ''coverage report -m''"
  "command_to_run_test self \<noteq> ''rm -rf .coverage''"
  by (auto simp: command_to_run_test_def pytest_command_def split: option.splits)

section \<open>The claims\<close>

subsection \<open>Dispatch\<close>

text \<open>
  Claim C1. For every request that passes \<open>check_arguments\<close>, \<open>run\<close> performs the
  action sequence of the first set flag in the order cleanup, build, run_tests,
  lint_code, and no other; a step that raises ends the sequence, and the exception is
  reported through the \<open>except\<close> clauses. With none of the four flags set nothing is
  done: \<open>run\<close> returns and the world is as before.
\<close>

theorem run_performs_chosen_action:
  assumes "check_arguments self w = Inr ()"
  shows "run t self w =
           reported (perform t (spec_action_sequence self (spec_chosen_action self)) w)
       \<and> (\<not> cleanup self \<and> \<not> build self \<and> \<not> run_tests self \<and> \<not> lint_code self
            \<longrightarrow> run t self w = (Inr (), w))"
  using assms
  by (auto simp: run_reported try_body_perform spec_chosen_action_def reported_def skip_def)

theorem run_performs_chosen_action_witness:
  "check_arguments (dev\<lparr>build := True, lint_code := True\<rparr>) project_root = Inr () \<and>
   spec_chosen_action (dev\<lparr>build := True, lint_code := True\<rparr>) = Some Build \<and>
   trace (snd (run tools_succeed (dev\<lparr>build := True, lint_code := True\<rparr>) project_root)) =
     [Exec ''python setup.py sdist bdist bdist_wheel'' None] \<and>
   check_arguments dev project_root = Inr () \<and>
   run tools_succeed dev project_root = (Inr (), project_root)"
proof -
  have h: "check_arguments (dev\<lparr>build := True, lint_code := True\<rparr>) project_root = Inr ()"
    by (simp add: model_defs input_defs)
  have h0: "check_arguments dev project_root = Inr ()"
    by (simp add: model_defs input_defs)
  have c: "spec_chosen_action (dev\<lparr>build := True, lint_code := True\<rparr>) = Some Build"
    by (simp add: spec_chosen_action_def dev_def)
  have n: "\<not> cleanup dev \<and> \<not> build dev \<and> \<not> run_tests dev \<and> \<not> lint_code dev"
    by (simp add: dev_def)
  from run_performs_chosen_action[OF h, of tools_succeed]
  have 1: "trace (snd (run tools_succeed (dev\<lparr>build := True, lint_code := True\<rparr>) project_root)) =
     [Exec ''python setup.py sdist bdist bdist_wheel'' None]"
    by (simp add: c perform_simps reported_def tools_succeed_def project_root_def)
  from run_performs_chosen_action[OF h0, of tools_succeed] n
  have 2: "run tools_succeed dev project_root = (Inr (), project_root)"
    by blast
  from h h0 c 1 2 show ?thesis by simp
qed

text \<open>
  Claim C6, as amended. In every validated run with \<open>cleanup\<close> set, \<open>rmtree\<close> is
  called, with errors ignored, on \<open>build\<close>, \<open>dist\<close> and \<open>pypots.egg-info\<close> and on
  nothing else. Each of the three that is a directory which the process is able to
  delete is removed; every other entry is as it was. \<open>run\<close> returns without an
  exception whether the three were present or absent, removed or not.
\<close>

theorem cleanup_removes_three_directories:
  assumes "check_arguments self w = Inr ()" "cleanup self"
  shows "fst (run t self w) = Inr ()
       \<and> new_events w (snd (run t self w)) =
           [Rmtree ''build'', Rmtree ''dist'', Rmtree ''pypots.egg-info'']
       \<and> (\<forall>n. entries (snd (run t self w)) n =
            (if n \<in> {''build'', ''dist'', ''pypots.egg-info''} \<and> entries w n = Some Dir
                \<and> removable w n
             then None else entries w n))"
proof -
  have r: "run t self w = try_body t self w"
    using assms(1) by (simp add: run_def try_body_cleanup[OF assms(2)])
  show ?thesis
    unfolding r try_body_cleanup[OF assms(2)] new_events_def
    by (simp add: without_dir_apply) blast
qed

theorem cleanup_removes_three_directories_witness:
  "check_arguments (dev\<lparr>cleanup := True\<rparr>) project_root = Inr () \<and>
   cleanup (dev\<lparr>cleanup := True\<rparr>) \<and>
   entries project_root ''pypots.egg-info'' = None \<and>
   fst (run tools_succeed (dev\<lparr>cleanup := True\<rparr>) project_root) = Inr () \<and>
   entries (snd (run tools_succeed (dev\<lparr>cleanup := True\<rparr>) project_root)) ''build'' = None \<and>
   entries (snd (run tools_succeed (dev\<lparr>cleanup := True\<rparr>) project_root)) ''dist'' = None \<and>
   entries (snd (run tools_succeed (dev\<lparr>cleanup := True\<rparr>) project_root)) ''docs'' = Some Dir"
proof -
  have h: "check_arguments (dev\<lparr>cleanup := True\<rparr>) project_root = Inr ()"
    by (simp add: model_defs input_defs)
  have c: "cleanup (dev\<lparr>cleanup := True\<rparr>)"
    by simp
  have e: "entries project_root ''pypots.egg-info'' = None"
          "entries project_root ''build'' = Some Dir"
          "entries project_root ''dist'' = Some Dir"
          "entries project_root ''docs'' = Some Dir"
          "removable project_root ''build''"
          "removable project_root ''dist''"
    by (simp_all add: project_root_def)
  from cleanup_removes_three_directories[OF h c, of tools_succeed] h c e
  show ?thesis by simp
qed

text \<open>
  The claim as stated fails where a removal fails: \<open>pypots-cli dev --cleanup\<close> in a
  checkout whose \<open>build\<close> directory the developer cannot delete. \<open>build\<close> is present,
  \<open>rmtree\<close> ignores the error, \<open>run\<close> returns, and \<open>build\<close> is still there.
\<close>

theorem cleanup_keeps_undeletable_counterexample:
  "check_arguments (dev\<lparr>cleanup := True\<rparr>) foreign_build = Inr () \<and>
   cleanup (dev\<lparr>cleanup := True\<rparr>) \<and>
   entries foreign_build ''build'' = Some Dir \<and>
   fst (run tools_succeed (dev\<lparr>cleanup := True\<rparr>) foreign_build) = Inr () \<and>
   trace (snd (run tools_succeed (dev\<lparr>cleanup := True\<rparr>) foreign_build)) =
     [Rmtree ''build'', Rmtree ''dist'', Rmtree ''pypots.egg-info''] \<and>
   entries (snd (run tools_succeed (dev\<lparr>cleanup := True\<rparr>) foreign_build)) ''build'' = Some Dir \<and>
   entries (snd (run tools_succeed (dev\<lparr>cleanup := True\<rparr>) foreign_build)) ''dist'' = None"
  by (simp add: model_defs input_defs)

subsection \<open>Validation\<close>

text \<open>
  Claim C3. Whenever the working directory does not hold both \<open>docs\<close> and \<open>pypots\<close>,
  \<open>check_arguments\<close> raises the \<open>AssertionError\<close> whose message names the working
  directory, whatever the flags are, and \<open>run\<close> raises the same error with the world
  untouched: nothing has been logged, removed or executed.
\<close>

theorem wrong_directory_fails_first:
  assumes "\<not> (in_listdir ''docs'' w \<and> in_listdir ''pypots'' w)"
  shows "check_arguments self w = Inl (AssertionError (root_directory_message (cwd w)))
       \<and> run t self w = (Inl (AssertionError (root_directory_message (cwd w))), w)"
  using assms by (auto simp: check_arguments_def run_def)

theorem wrong_directory_fails_first_witness:
  "\<not> (in_listdir ''docs'' docs_directory \<and> in_listdir ''pypots'' docs_directory) \<and>
   run tools_succeed (dev\<lparr>run_tests := True\<rparr>) docs_directory =
     (Inl (AssertionError
        (''Command `pypots-cli dev` can only be run under the root directory of project PyPOTS, '' @
         ''but you'' @ [CHR 0x27] @ ''re running it under the path /home/dev/PyPOTS/docs'' @
         ''. Please make a check.'')),
      docs_directory)"
proof -
  have h: "\<not> (in_listdir ''docs'' docs_directory \<and> in_listdir ''pypots'' docs_directory)"
    by (simp add: in_listdir_def docs_directory_def)
  have c: "cwd docs_directory = ''/home/dev/PyPOTS/docs''"
    by (simp add: docs_directory_def)
  from wrong_directory_fails_first[OF h, of "dev\<lparr>run_tests := True\<rparr>" tools_succeed] h
  show ?thesis by (simp add: c root_directory_message_def)
qed

text \<open>
  Claim C4. In a working directory that holds \<open>docs\<close> and \<open>pypots\<close>: if \<open>-k\<close> was given
  without \<open>--run_tests\<close>, validation fails with the message that tells to combine
  \<open>-k\<close> with \<open>--run_tests\<close>; if \<open>--show_coverage\<close> was given without \<open>--run_tests\<close>,
  validation fails with a combined-usage message as well, the one for
  \<open>--show_coverage\<close>, or the one for \<open>-k\<close> when \<open>-k\<close> was given too, as its assertion
  comes first.
\<close>

theorem dependent_flags_need_run_tests:
  assumes "in_listdir ''docs'' w" "in_listdir ''pypots'' w"
  shows "(k self \<noteq> None \<and> \<not> run_tests self \<longrightarrow>
            check_arguments self w = Inl (AssertionError k_message))
       \<and> (show_coverage self \<and> \<not> run_tests self \<longrightarrow>
            check_arguments self w =
              Inl (AssertionError (if k self \<noteq> None then k_message else show_coverage_message)))"
  using assms by (auto simp: check_arguments_def)

theorem dependent_flags_need_run_tests_witness:
  "in_listdir ''docs'' project_root \<and> in_listdir ''pypots'' project_root \<and>
   check_arguments (dev\<lparr>k := Some ''imputation''\<rparr>) project_root =
     Inl (AssertionError
       (''Argument `-k` should combine the use of `--run_tests`. '' @
        ''Try `pypots-cli dev --run_tests -k your_pattern`'')) \<and>
   check_arguments (dev\<lparr>show_coverage := True\<rparr>) project_root =
     Inl (AssertionError
       (''Argument `--show_coverage` should combine the use of `--run_tests`. '' @
        ''Try `pypots-cli dev --run_tests --show_coverage`''))"
proof -
  have h: "in_listdir ''docs'' project_root" "in_listdir ''pypots'' project_root"
    by (simp_all add: in_listdir_def project_root_def)
  have a: "k (dev\<lparr>k := Some ''imputation''\<rparr>) \<noteq> None \<and> \<not> run_tests (dev\<lparr>k := Some ''imputation''\<rparr>)"
    by (simp add: dev_def)
  have b: "show_coverage (dev\<lparr>show_coverage := True\<rparr>) \<and> \<not> run_tests (dev\<lparr>show_coverage := True\<rparr>)"
    by (simp add: dev_def)
  have b': "k (dev\<lparr>show_coverage := True\<rparr>) = None"
    by (simp add: dev_def)
  from dependent_flags_need_run_tests[OF h, of "dev\<lparr>k := Some ''imputation''\<rparr>"] a
  have 1: "check_arguments (dev\<lparr>k := Some ''imputation''\<rparr>) project_root = Inl (AssertionError k_message)"
    by blast
  from dependent_flags_need_run_tests[OF h, of "dev\<lparr>show_coverage := True\<rparr>"] b
  have 2: "check_arguments (dev\<lparr>show_coverage := True\<rparr>) project_root =
             Inl (AssertionError show_coverage_message)"
    unfolding b' by simp
  from h 1 2 show ?thesis by (simp add: k_message_def show_coverage_message_def)
qed

text \<open>
  Claim C5, as amended. In a working directory that holds \<open>docs\<close> and \<open>pypots\<close>, a
  request with \<open>cleanup\<close> and with \<open>run_tests\<close> or \<open>lint_code\<close> fails validation and
  nothing is done. The error is the one saying that \<open>--cleanup\<close> should be used
  alone, unless an earlier assertion fails: without \<open>run_tests\<close>, a given \<open>-k\<close> raises
  the message for \<open>-k\<close>, and otherwise a set \<open>show_coverage\<close> raises the message for
  \<open>--show_coverage\<close>.
\<close>

theorem cleanup_with_tests_or_lint_fails:
  assumes "in_listdir ''docs'' w" "in_listdir ''pypots'' w"
    and "cleanup self" "run_tests self \<or> lint_code self"
  shows "check_arguments self w =
           Inl (AssertionError
             (if k self \<noteq> None \<and> \<not> run_tests self then k_message
              else if show_coverage self \<and> \<not> run_tests self then show_coverage_message
              else cleanup_message))
       \<and> run t self w = (check_arguments self w, w)"
  using assms by (auto simp: check_arguments_def run_def)

theorem cleanup_with_tests_or_lint_fails_witness:
  "in_listdir ''docs'' project_root \<and> in_listdir ''pypots'' project_root \<and>
   run tools_succeed (dev\<lparr>cleanup := True, run_tests := True\<rparr>) project_root =
     (Inl (AssertionError
        (''Argument `--cleanup` should be used alone. '' @ ''Try `pypots-cli dev --cleanup`'')),
      project_root)"
proof -
  have h: "in_listdir ''docs'' project_root" "in_listdir ''pypots'' project_root"
    by (simp_all add: in_listdir_def project_root_def)
  have c: "cleanup (dev\<lparr>cleanup := True, run_tests := True\<rparr>)"
    by simp
  have r: "run_tests (dev\<lparr>cleanup := True, run_tests := True\<rparr>)
             \<or> lint_code (dev\<lparr>cleanup := True, run_tests := True\<rparr>)"
    by simp
  from cleanup_with_tests_or_lint_fails[OF h c r, of tools_succeed] h
  show ?thesis by (simp add: cleanup_message_def)
qed

text \<open>
  The claim as the specification has it fails for
  \<open>pypots-cli dev --cleanup --lint_code --show_coverage\<close>: the assertion on
  \<open>--show_coverage\<close> comes before the one on \<open>--cleanup\<close>, and its message is raised.
\<close>

theorem cleanup_alone_error_counterexample:
  "in_listdir ''docs'' project_root \<and> in_listdir ''pypots'' project_root \<and>
   cleanup (dev\<lparr>cleanup := True, lint_code := True, show_coverage := True\<rparr>) \<and>
   lint_code (dev\<lparr>cleanup := True, lint_code := True, show_coverage := True\<rparr>) \<and>
   check_arguments (dev\<lparr>cleanup := True, lint_code := True, show_coverage := True\<rparr>) project_root =
     Inl (AssertionError show_coverage_message) \<and>
   check_arguments (dev\<lparr>cleanup := True, lint_code := True, show_coverage := True\<rparr>) project_root \<noteq>
     Inl (AssertionError cleanup_message)"
  by (simp add: check_arguments_def in_listdir_def project_root_def dev_def
        show_coverage_message_def cleanup_message_def)

text \<open>
  Claim C10, as amended. In a working directory that holds \<open>docs\<close> and \<open>pypots\<close>, a
  request with \<open>cleanup\<close> and \<open>build\<close>, without \<open>run_tests\<close> and \<open>lint_code\<close>, and with
  neither \<open>-k\<close> nor \<open>show_coverage\<close>, passes validation although the message of the
  last assertion says that \<open>--cleanup\<close> should be used alone; \<open>run\<close> returns after the
  three calls of \<open>rmtree\<close>, and no command is executed: the package is not built.
\<close>

theorem cleanup_wins_over_build:
  assumes "in_listdir ''docs'' w" "in_listdir ''pypots'' w"
    and "cleanup self" "build self" "\<not> run_tests self" "\<not> lint_code self"
    and "k self = None" "\<not> show_coverage self"
  shows "check_arguments self w = Inr ()
       \<and> fst (run t self w) = Inr ()
       \<and> new_events w (snd (run t self w)) =
           [Rmtree ''build'', Rmtree ''dist'', Rmtree ''pypots.egg-info'']"
proof -
  have v: "check_arguments self w = Inr ()"
    using assms by (simp add: check_arguments_def)
  show ?thesis
    using assms(3) by (simp add: v run_def try_body_cleanup new_events_def)
qed

theorem cleanup_wins_over_build_witness:
  "in_listdir ''docs'' project_root \<and> in_listdir ''pypots'' project_root \<and>
   check_arguments (dev\<lparr>cleanup := True, build := True\<rparr>) project_root = Inr () \<and>
   fst (run tools_succeed (dev\<lparr>cleanup := True, build := True\<rparr>) project_root) = Inr () \<and>
   trace (snd (run tools_succeed (dev\<lparr>cleanup := True, build := True\<rparr>) project_root)) =
     [Rmtree ''build'', Rmtree ''dist'', Rmtree ''pypots.egg-info'']"
proof -
  have h: "in_listdir ''docs'' project_root" "in_listdir ''pypots'' project_root"
    by (simp_all add: in_listdir_def project_root_def)
  have f: "cleanup (dev\<lparr>cleanup := True, build := True\<rparr>)"
          "build (dev\<lparr>cleanup := True, build := True\<rparr>)"
          "\<not> run_tests (dev\<lparr>cleanup := True, build := True\<rparr>)"
          "\<not> lint_code (dev\<lparr>cleanup := True, build := True\<rparr>)"
          "k (dev\<lparr>cleanup := True, build := True\<rparr>) = None"
          "\<not> show_coverage (dev\<lparr>cleanup := True, build := True\<rparr>)"
    by (simp_all add: dev_def)
  have t0: "trace project_root = []"
    by (simp add: project_root_def)
  from cleanup_wins_over_build[OF h f, of tools_succeed] h
  show ?thesis by (simp add: new_events_def t0)
qed

text \<open>
  The claim as stated fails for \<open>pypots-cli dev --cleanup --build --show_coverage\<close>:
  \<open>run_tests\<close> and \<open>lint_code\<close> are not set, and validation fails on
  \<open>--show_coverage\<close>.
\<close>

theorem cleanup_build_validation_counterexample:
  "in_listdir ''docs'' project_root \<and> in_listdir ''pypots'' project_root \<and>
   cleanup (dev\<lparr>cleanup := True, build := True, show_coverage := True\<rparr>) \<and>
   build (dev\<lparr>cleanup := True, build := True, show_coverage := True\<rparr>) \<and>
   \<not> run_tests (dev\<lparr>cleanup := True, build := True, show_coverage := True\<rparr>) \<and>
   \<not> lint_code (dev\<lparr>cleanup := True, build := True, show_coverage := True\<rparr>) \<and>
   check_arguments (dev\<lparr>cleanup := True, build := True, show_coverage := True\<rparr>) project_root =
     Inl (AssertionError show_coverage_message) \<and>
   run tools_succeed (dev\<lparr>cleanup := True, build := True, show_coverage := True\<rparr>) project_root =
     (Inl (AssertionError show_coverage_message), project_root)"
  by (simp add: check_arguments_def run_def in_listdir_def project_root_def dev_def)

subsection \<open>Failures of an action\<close>

text \<open>
  The two \<open>except\<close> clauses, case by case: an \<open>ImportError\<close>, and an instance of any
  class that derives from it, is replaced by an \<open>ImportError\<close> with the message of
  the source; every other exception \<open>e\<close> by \<open>RuntimeError(e)\<close>.
\<close>

lemma except_clauses_cases:
  "except_clauses e =
     (if (\<exists>m. e = ImportError m) \<or> (\<exists>mro m. e = Raised mro m \<and> ''ImportError'' \<in> set mro)
      then ImportError
        (''`pypots-cli dev` command is for PyPOTS developers to run tests easily. '' @
         ''Therefore, you need a complete PyPOTS development environment. However, you are missing some dependencies. '' @
         ''Please refer to https://github.com/WenjieDu/PyPOTS/blob/main/environment-dev.yml for dependency details. '')
      else RuntimeError e)"
  by (cases e) (simp_all add: except_clauses_def IMPORT_ERROR_MESSAGE_def)

text \<open>
  Claim C8. In every validated run: if a command that was executed raised an
  exception \<open>e\<close>, then \<open>run\<close> raises, in place of \<open>e\<close>, an \<open>ImportError\<close> with the
  message that tells of the missing dependencies and refers to \<open>environment-dev.yml\<close>
  when \<open>e\<close> is an \<open>ImportError\<close> or an instance of a class that derives from it, and
  \<open>RuntimeError(e)\<close>, which holds \<open>e\<close>, for any other \<open>e\<close>. And whenever \<open>run\<close> raises
  after validation, the last command that was executed has raised, so that the
  exception of \<open>run\<close> is the one just described.
\<close>

theorem failures_are_reported:
  assumes "check_arguments self w = Inr ()" "run t self w = (r, w')"
  shows "(\<forall>c e. Exec c (Some e) \<in> set (new_events w w') \<longrightarrow>
            r = Inl
              (if (\<exists>m. e = ImportError m) \<or>
                  (\<exists>mro m. e = Raised mro m \<and> ''ImportError'' \<in> set mro)
               then ImportError
                 (''`pypots-cli dev` command is for PyPOTS developers to run tests easily. '' @
                  ''Therefore, you need a complete PyPOTS development environment. However, you are missing some dependencies. '' @
                  ''Please refer to https://github.com/WenjieDu/PyPOTS/blob/main/environment-dev.yml for dependency details. '')
               else RuntimeError e))
       \<and> (\<forall>err. r = Inl err \<longrightarrow>
            (\<exists>c e. new_events w w' \<noteq> [] \<and> last (new_events w w') = Exec c (Some e)))"
proof -
  from run_events[OF assms] obtain evs where
    tr: "trace w' = trace w @ evs" and
    cs: "case r of
          Inl err \<Rightarrow> \<exists>c e pre. evs = pre @ [Exec c (Some e)] \<and>
                       (\<forall>c' e'. Exec c' (Some e') \<notin> set pre) \<and> err = except_clauses e
        | Inr u \<Rightarrow> \<forall>c' e'. Exec c' (Some e') \<notin> set evs"
    by blast
  have ne: "new_events w w' = evs" by (simp add: new_events_def tr)
  show ?thesis
  proof (cases r)
    case (Inl err)
    with cs obtain c e pre where
      p: "evs = pre @ [Exec c (Some e)]" "\<forall>c' e'. Exec c' (Some e') \<notin> set pre"
         "err = except_clauses e"
      by auto
    have one: "\<forall>c' e'. Exec c' (Some e') \<in> set evs \<longrightarrow> e' = e"
      using p(1) p(2) by auto
    have "\<forall>c' e'. Exec c' (Some e') \<in> set evs \<longrightarrow> r = Inl (except_clauses e')"
      using one Inl p(3) by blast
    moreover have "evs \<noteq> [] \<and> last evs = Exec c (Some e)"
      using p(1) by simp
    ultimately show ?thesis
      unfolding ne except_clauses_cases by blast
  next
    case (Inr u)
    with cs show ?thesis unfolding ne by auto
  qed
qed

theorem failures_are_reported_witness:
  "check_arguments (dev\<lparr>lint_code := True\<rparr>) project_root = Inr () \<and>
   check_arguments (dev\<lparr>build := True\<rparr>) project_root = Inr () \<and>
   check_arguments (dev\<lparr>run_tests := True\<rparr>) project_root = Inr () \<and>
   fst (run black_missing (dev\<lparr>lint_code := True\<rparr>) project_root) =
     Inl (ImportError
       (''`pypots-cli dev` command is for PyPOTS developers to run tests easily. '' @
        ''Therefore, you need a complete PyPOTS development environment. However, you are missing some dependencies. '' @
        ''Please refer to https://github.com/WenjieDu/PyPOTS/blob/main/environment-dev.yml for dependency details. '')) \<and>
   fst (run flake8_broken (dev\<lparr>lint_code := True\<rparr>) project_root) =
     fst (run black_missing (dev\<lparr>lint_code := True\<rparr>) project_root) \<and>
   fst (run setup_from_bad_zip (dev\<lparr>build := True\<rparr>) project_root) =
     fst (run black_missing (dev\<lparr>lint_code := True\<rparr>) project_root) \<and>
   fst (run tests_fail (dev\<lparr>run_tests := True\<rparr>) project_root) =
     Inl (RuntimeError (Other ''RuntimeError'' []))"
proof -
  have h: "check_arguments (dev\<lparr>lint_code := True\<rparr>) project_root = Inr ()"
    by (simp add: model_defs input_defs)
  have h1: "check_arguments (dev\<lparr>build := True\<rparr>) project_root = Inr ()"
    by (simp add: model_defs input_defs)
  have h2: "check_arguments (dev\<lparr>run_tests := True\<rparr>) project_root = Inr ()"
    by (simp add: model_defs input_defs)
  have e: "Exec ''black .''
             (Some (Raised [''ModuleNotFoundError'', ''ImportError'', ''Exception'']
                      ''No module named black''))
       \<in> set (new_events project_root
                (snd (run black_missing (dev\<lparr>lint_code := True\<rparr>) project_root)))"
    by (simp add: model_defs input_defs)
  have e0: "Exec ''flake8 .'' (Some (ImportError ''cannot import name main''))
       \<in> set (new_events project_root
                (snd (run flake8_broken (dev\<lparr>lint_code := True\<rparr>) project_root)))"
    by (simp add: model_defs input_defs)
  have e1: "Exec ''python setup.py sdist bdist bdist_wheel''
             (Some (Raised [''ZipImportError'', ''ImportError'', ''Exception''] ''not a Zip file''))
       \<in> set (new_events project_root
                (snd (run setup_from_bad_zip (dev\<lparr>build := True\<rparr>) project_root)))"
    by (simp add: model_defs input_defs)
  have e2: "Exec ''pytest'' (Some (Other ''RuntimeError'' []))
       \<in> set (new_events project_root
                (snd (run tests_fail (dev\<lparr>run_tests := True\<rparr>) project_root)))"
    by (simp add: model_defs input_defs)
  from failures_are_reported[OF h surjective_pairing, of black_missing,
         THEN conjunct1, THEN spec, THEN spec, THEN mp, OF e]
  have 1: "fst (run black_missing (dev\<lparr>lint_code := True\<rparr>) project_root) =
     Inl (ImportError
       (''`pypots-cli dev` command is for PyPOTS developers to run tests easily. '' @
        ''Therefore, you need a complete PyPOTS development environment. However, you are missing some dependencies. '' @
        ''Please refer to https://github.com/WenjieDu/PyPOTS/blob/main/environment-dev.yml for dependency details. ''))"
    by simp
  from failures_are_reported[OF h surjective_pairing, of flake8_broken,
         THEN conjunct1, THEN spec, THEN spec, THEN mp, OF e0]
  have 2: "fst (run flake8_broken (dev\<lparr>lint_code := True\<rparr>) project_root) =
     Inl (ImportError
       (''`pypots-cli dev` command is for PyPOTS developers to run tests easily. '' @
        ''Therefore, you need a complete PyPOTS development environment. However, you are missing some dependencies. '' @
        ''Please refer to https://github.com/WenjieDu/PyPOTS/blob/main/environment-dev.yml for dependency details. ''))"
    by simp
  from failures_are_reported[OF h1 surjective_pairing, of setup_from_bad_zip,
         THEN conjunct1, THEN spec, THEN spec, THEN mp, OF e1]
  have 3: "fst (run setup_from_bad_zip (dev\<lparr>build := True\<rparr>) project_root) =
     Inl (ImportError
       (''`pypots-cli dev` command is for PyPOTS developers to run tests easily. '' @
        ''Therefore, you need a complete PyPOTS development environment. However, you are missing some dependencies. '' @
        ''Please refer to https://github.com/WenjieDu/PyPOTS/blob/main/environment-dev.yml for dependency details. ''))"
    by simp
  from failures_are_reported[OF h2 surjective_pairing, of tests_fail,
         THEN conjunct1, THEN spec, THEN spec, THEN mp, OF e2]
  have 4: "fst (run tests_fail (dev\<lparr>run_tests := True\<rparr>) project_root) =
             Inl (RuntimeError (Other ''RuntimeError'' []))"
    by simp
  from h h1 h2 1 2 3 4 show ?thesis by simp
qed

subsection \<open>The test action\<close>

text \<open>
  Claim C2, as amended. In every validated run of the test action (\<open>run_tests\<close> set,
  \<open>cleanup\<close> and \<open>build\<close> not set), with or without \<open>show_coverage\<close>: if none of the
  commands before it raised, \<open>rm -rf .pytest_cache\<close> is the last command executed; if
  the test runner or one of the two coverage commands raised, \<open>run\<close> stops there and
  \<open>rm -rf .pytest_cache\<close> is not executed.
\<close>

theorem cache_removed_when_commands_return:
  assumes "check_arguments self w = Inr ()" "\<not> cleanup self" "\<not> build self" "run_tests self"
  shows "((\<forall>c e. Exec c (Some e) \<in> set (new_events w (snd (run t self w)))
                  \<longrightarrow> c = ''rm -rf .pytest_cache'')
            \<longrightarrow> (\<exists>rc. new_events w (snd (run t self w)) \<noteq> [] \<and>
                       last (new_events w (snd (run t self w))) = Exec ''rm -rf .pytest_cache'' rc))
       \<and> ((\<exists>c e. Exec c (Some e) \<in> set (new_events w (snd (run t self w)))
                  \<and> c \<noteq> ''rm -rf .pytest_cache'')
            \<longrightarrow> (\<forall>rc. Exec ''rm -rf .pytest_cache'' rc
                        \<notin> set (new_events w (snd (run t self w)))))"
proof -
  from run_tests_new_events[OF assms, of t] obtain r1 r2 r3 r4 where
    ev: "new_events w (snd (run t self w)) =
      LogInfo (''Executing '' @ [CHR 0x27] @ command_to_run_test self @ [CHR 0x27] @ ''...'') #
      Exec (command_to_run_test self) r1 #
      (if r1 \<noteq> None then []
       else if show_coverage self then
         Exec ''coverage report -m'' r2 #
         (if r2 \<noteq> None then []
          else Exec ''rm -rf .coverage'' r3 #
               (if r3 \<noteq> None then [] else [Exec ''rm -rf .pytest_cache'' r4]))
       else [Exec ''rm -rf .pytest_cache'' r4])"
    by blast
  show ?thesis
    unfolding ev
    by (cases r1; cases r2; cases r3; cases "show_coverage self")
       (simp_all add: command_to_run_test_neq command_to_run_test_neq[symmetric])
qed

theorem cache_removed_when_commands_return_witness:
  "check_arguments (dev\<lparr>run_tests := True, show_coverage := True\<rparr>) project_root = Inr () \<and>
   new_events project_root
     (snd (run tools_succeed (dev\<lparr>run_tests := True, show_coverage := True\<rparr>) project_root)) =
     [LogInfo (''Executing '' @ [CHR 0x27] @ ''coverage run -m pytest'' @ [CHR 0x27] @ ''...''),
      Exec ''coverage run -m pytest'' None,
      Exec ''coverage report -m'' None,
      Exec ''rm -rf .coverage'' None,
      Exec ''rm -rf .pytest_cache'' None] \<and>
   (\<exists>rc. last (new_events project_root
      (snd (run tools_succeed (dev\<lparr>run_tests := True, show_coverage := True\<rparr>) project_root))) =
      Exec ''rm -rf .pytest_cache'' rc)"
proof -
  have h: "check_arguments (dev\<lparr>run_tests := True, show_coverage := True\<rparr>) project_root = Inr ()"
    by (simp add: model_defs input_defs)
  have f: "\<not> cleanup (dev\<lparr>run_tests := True, show_coverage := True\<rparr>)"
          "\<not> build (dev\<lparr>run_tests := True, show_coverage := True\<rparr>)"
          "run_tests (dev\<lparr>run_tests := True, show_coverage := True\<rparr>)"
    by (simp_all add: dev_def)
  have ev: "new_events project_root
     (snd (run tools_succeed (dev\<lparr>run_tests := True, show_coverage := True\<rparr>) project_root)) =
     [LogInfo (''Executing '' @ [CHR 0x27] @ ''coverage run -m pytest'' @ [CHR 0x27] @ ''...''),
      Exec ''coverage run -m pytest'' None,
      Exec ''coverage report -m'' None,
      Exec ''rm -rf .coverage'' None,
      Exec ''rm -rf .pytest_cache'' None]"
    by (simp add: model_defs input_defs)
  from cache_removed_when_commands_return[OF h f, of tools_succeed, THEN conjunct1]
  have "\<exists>rc. last (new_events project_root
      (snd (run tools_succeed (dev\<lparr>run_tests := True, show_coverage := True\<rparr>) project_root))) =
      Exec ''rm -rf .pytest_cache'' rc"
    unfolding ev by simp
  with h ev show ?thesis by simp
qed

text \<open>
  The claim as stated fails when the tests fail: \<open>pypots-cli dev --run_tests\<close> with a
  test runner whose call raises. The runner has been run and has left its cache
  directory; \<open>run\<close> raises \<open>RuntimeError\<close>, and \<open>rm -rf .pytest_cache\<close> is not executed.
\<close>

theorem cache_kept_when_tests_fail_counterexample:
  "check_arguments (dev\<lparr>run_tests := True\<rparr>) project_root = Inr () \<and>
   fst (run tests_fail (dev\<lparr>run_tests := True\<rparr>) project_root) =
     Inl (RuntimeError (Other ''RuntimeError'' [])) \<and>
   trace (snd (run tests_fail (dev\<lparr>run_tests := True\<rparr>) project_root)) =
     [LogInfo (''Executing '' @ [CHR 0x27] @ ''pytest'' @ [CHR 0x27] @ ''...''),
      Exec ''pytest'' (Some (Other ''RuntimeError'' []))] \<and>
   entries (snd (run tests_fail (dev\<lparr>run_tests := True\<rparr>) project_root)) ''.pytest_cache'' =
     Some Dir"
  by (simp add: model_defs input_defs)




text \<open>
  Claim C9. For \<open>pypots-cli dev --run_tests -k ""\<close> in a working directory that holds
  \<open>docs\<close> and \<open>pypots\<close> (\<open>cleanup\<close> and \<open>build\<close> not set, so that the test action is the
  one dispatched): validation passes, and it takes the empty pattern for a given
  \<open>-k\<close>, as the same request without \<open>run_tests\<close> fails with the message for \<open>-k\<close>;
  the dispatch takes it for no pattern: the command is \<open>pytest\<close>, or
  \<open>coverage run -m pytest\<close>, with no \<open>-k\<close>, and the whole run is the run of the
  request without \<open>-k\<close>.
\<close>

theorem empty_filter_is_ignored:
  assumes "in_listdir ''docs'' w" "in_listdir ''pypots'' w"
    and "k self = Some []" "run_tests self" "\<not> cleanup self" "\<not> build self"
  shows "check_arguments self w = Inr ()
       \<and> check_arguments (self\<lparr>run_tests := False\<rparr>) w = Inl (AssertionError k_message)
       \<and> command_to_run_test self =
           (if show_coverage self then ''coverage run -m pytest'' else ''pytest'')
       \<and> run t self w = run t (self\<lparr>k := None\<rparr>) w
       \<and> (\<exists>r1 rest. new_events w (snd (run t self w)) =
             LogInfo (''Executing '' @ [CHR 0x27] @ command_to_run_test self @ [CHR 0x27] @ ''...'') #
             Exec (command_to_run_test self) r1 # rest)"
proof -
  have v: "check_arguments self w = Inr ()"
    using assms by (simp add: check_arguments_def)
  have s: "check_arguments (self\<lparr>run_tests := False\<rparr>) w = Inl (AssertionError k_message)"
    using assms by (simp add: check_arguments_def)
  have c: "command_to_run_test self =
             (if show_coverage self then ''coverage run -m pytest'' else ''pytest'')"
    using assms(3) by (simp add: command_to_run_test_def pytest_command_def)
  have c': "command_to_run_test (self\<lparr>k := None\<rparr>) = command_to_run_test self"
    using assms(3) by (simp add: command_to_run_test_def pytest_command_def)
  have v': "check_arguments (self\<lparr>k := None\<rparr>) w = Inr ()"
    using assms by (simp add: check_arguments_def)
  have tb: "try_body t (self\<lparr>k := None\<rparr>) w = try_body t self w"
    using c' by (simp add: try_body_def)
  have r: "run t self w = run t (self\<lparr>k := None\<rparr>) w"
    by (simp add: run_def v v' tb)
  from run_tests_new_events[OF v assms(5) assms(6) assms(4), of t]
  have e: "\<exists>r1 rest. new_events w (snd (run t self w)) =
             LogInfo (''Executing '' @ [CHR 0x27] @ command_to_run_test self @ [CHR 0x27] @ ''...'') #
             Exec (command_to_run_test self) r1 # rest"
    by blast
  from v s c r e show ?thesis by blast
qed

theorem empty_filter_is_ignored_witness:
  "in_listdir ''docs'' project_root \<and> in_listdir ''pypots'' project_root \<and>
   check_arguments (dev\<lparr>run_tests := True, k := Some ''''\<rparr>) project_root = Inr () \<and>
   check_arguments (dev\<lparr>run_tests := True, k := Some '''', run_tests := False\<rparr>) project_root =
     Inl (AssertionError k_message) \<and>
   command_to_run_test (dev\<lparr>run_tests := True, k := Some ''''\<rparr>) = ''pytest'' \<and>
   run tools_succeed (dev\<lparr>run_tests := True, k := Some ''''\<rparr>) project_root =
     run tools_succeed (dev\<lparr>run_tests := True, k := Some '''', k := None\<rparr>) project_root"
proof -
  let ?c = "dev\<lparr>run_tests := True, k := Some ''''\<rparr>"
  have h: "in_listdir ''docs'' project_root" "in_listdir ''pypots'' project_root"
    by (simp_all add: in_listdir_def project_root_def)
  have f: "k ?c = Some []" "run_tests ?c" "\<not> cleanup ?c" "\<not> build ?c"
    by (simp_all add: dev_def)
  have nc: "\<not> show_coverage ?c"
    by (simp add: dev_def)
  from empty_filter_is_ignored[OF h f, of tools_succeed] h nc
  show ?thesis by simp
qed

end
